theory Spec2Isabelle
  imports Main
begin

section \<open>Ember+ data\<close>

text \<open>
  The Ember+ library (\<^verbatim>\<open>ember.js\<close>), the BER writer and the S101 codec are collaborators
  of the server and are not part of the sources; the data they provide is modelled from
  the data model of the specification.  A client session is referred to by an
  identifier, a tree element by its path (the dot-joined numbers from the root, here the
  list of these numbers; the root is the empty path).
\<close>

type_synonym client_id = nat
type_synonym path = "nat list"

datatype val = VInt int | VString string | VBool bool

text \<open>Modelled from the spec: the access level of a parameter,
  \<^verbatim>\<open>{none, read, write, readWrite}\<close>, with the numeric value the enumeration gives it.\<close>

datatype ParameterAccess = AccessNone | AccessRead | AccessWrite | AccessReadWrite

fun access_value :: "ParameterAccess \<Rightarrow> nat" where
  "access_value AccessNone = 0"
| "access_value AccessRead = 1"
| "access_value AccessWrite = 2"
| "access_value AccessReadWrite = 3"

text \<open>Modelled from the spec: \<^verbatim>\<open>MatrixOperation\<close> and \<^verbatim>\<open>MatrixDisposition\<close>.\<close>

datatype MatrixOperation = OpAbsolute | OpConnect | OpDisconnect

datatype MatrixDisposition = DispTally | DispModified | DispPending | DispLocked

text \<open>Modelled from the spec: a parameter holds a value, an access level and an optional
  stream identifier; a matrix holds its target count and a mapping from targets to the
  set of sources connected to them.  Every field a request or a configuration may leave
  out is an option (\<^verbatim>\<open>undefined\<close> is \<open>None\<close>).\<close>

record ParameterContents =
  pvalue :: "val option"
  paccess :: "ParameterAccess option"
  streamIdentifier :: "int option"

record MatrixContents =
  targetCount :: "int option"

datatype body =
    RootBody
  | NodeBody
  | ParameterBody "ParameterContents option"
  | MatrixBody "MatrixContents option" "int \<rightharpoonup> int set"

record element =
  isQualified :: bool
  body :: body
  children :: "nat list option"

text \<open>The elements of a decoded request.  \<open>rkind\<close> is the class of the object (what
  \<^verbatim>\<open>instanceof\<close> tests), \<open>rcontents\<close> is \<open>None\<close> when \<^verbatim>\<open>contents\<close> is undefined and
  \<open>Some None\<close> when the contents carry no value.\<close>

record connection =
  target :: int
  sources :: "int list"
  operation :: "MatrixOperation option"

datatype rkind =
  Command | Node | Parameter | MatrixNode | QualifiedNode | QualifiedParameter | QualifiedMatrix

datatype request =
  Request (rkind: rkind) (rpath: "path option") (rnumber: "nat option")
    (rchildren: "request list option") (rcontents: "val option option")
    (rconnections: "connection list option")

record root =
  elements :: "request list option"

text \<open>Modelled from the spec: the command constants \<^verbatim>\<open>GetDirectory\<close>, \<^verbatim>\<open>Subscribe\<close>
  and \<^verbatim>\<open>Unsubscribe\<close> (the numeric codes of the protocol).\<close>

definition Subscribe :: nat where "Subscribe = 30"
definition Unsubscribe :: nat where "Unsubscribe = 31"
definition GetDirectory :: nat where "GetDirectory = 32"

subsection \<open>Responses\<close>

text \<open>Modelled from the spec: a response is either the minimal form of the tree root, the
  tree branch of an element, an element with its children duplicated (in tree-branch or
  in qualified form), or a matrix with the connections a request touched.\<close>

datatype form = TreeBranchForm | QualifiedForm

record conResult =
  res_sources :: "int set"
  res_disposition :: "MatrixDisposition option"
  res_operation :: "MatrixOperation option"

datatype response =
    MinimalRoot
  | ElementBranch path
  | ElementResponse form path "element option" "(nat \<times> element option) list"
  | MatrixResponse form path "int \<rightharpoonup> conResult"

section \<open>The client session (S101Client)\<close>

text \<open>
  A queued callback is described by what it does to the client it is queued on, in
  order: it writes nodes with \<^verbatim>\<open>sendBERNode\<close> and it may call \<^verbatim>\<open>addRequest\<close> again
  (as \<^verbatim>\<open>queueMessage\<close> does) while it is the active request.
\<close>

datatype action = SendBERNode response | AddRequest work
  and work = Work "action list"

fun actions :: "work \<Rightarrow> action list" where
  "actions (Work as) = as"

record S101Client =
  socket :: bool
  request :: "request option"
  pendingRequests :: "work list"
  activeRequest :: "work option"
  written :: "response list"

definition isConnected :: "S101Client \<Rightarrow> bool" where
  "isConnected c = socket c"

text \<open>\<^verbatim>\<open>sendBER\<close> writes the frames of the encoded node to the socket when the client
  is connected; \<open>written\<close> records the nodes written, in order.\<close>

definition sendBER :: "response \<Rightarrow> S101Client \<Rightarrow> S101Client" where
  "sendBER data c = (if isConnected c then c\<lparr>written := written c @ [data]\<rparr> else c)"

definition sendBERNode :: "response \<Rightarrow> S101Client \<Rightarrow> S101Client" where
  "sendBERNode node c = sendBER node c"

function (domintros) execActions :: "action list \<Rightarrow> S101Client \<Rightarrow> S101Client"
  and addRequest :: "work \<Rightarrow> S101Client \<Rightarrow> S101Client"
  and makeRequest :: "S101Client \<Rightarrow> S101Client"
where
  "execActions [] c = c"
| "execActions (SendBERNode node # as) c = execActions as (sendBERNode node c)"
| "execActions (AddRequest cb # as) c = execActions as (addRequest cb c)"
| "addRequest cb c = makeRequest (c\<lparr>pendingRequests := pendingRequests c @ [cb]\<rparr>)"
| "makeRequest c =
    (if activeRequest c = None \<and> pendingRequests c \<noteq> [] then
       (let cb = hd (pendingRequests c);
            c1 = c\<lparr>activeRequest := Some cb, pendingRequests := tl (pendingRequests c)\<rparr>;
            c2 = execActions (actions cb) c1
        in c2\<lparr>activeRequest := None\<rparr>)
     else c)"
  by pat_completeness auto

definition queueMessage :: "response \<Rightarrow> S101Client \<Rightarrow> S101Client" where
  "queueMessage node c = addRequest (Work [SendBERNode node]) c"

subsection \<open>The pump terminates\<close>

text \<open>A callback runs while \<open>activeRequest\<close> is set, so a call of \<^verbatim>\<open>addRequest\<close> from
  inside a callback only appends: the nesting of callbacks is never deeper than one.\<close>

lemma makeRequest_dom_active:
  "activeRequest c \<noteq> None \<Longrightarrow> execActions_addRequest_makeRequest_dom (Inr (Inr c))"
  by (rule execActions_addRequest_makeRequest.domintros) simp

lemma addRequest_dom_active:
  "activeRequest c \<noteq> None \<Longrightarrow> execActions_addRequest_makeRequest_dom (Inr (Inl (cb, c)))"
  by (rule execActions_addRequest_makeRequest.domintros) (simp add: makeRequest_dom_active)

lemma addRequest_active_partial:
  "activeRequest c \<noteq> None \<Longrightarrow>
   addRequest cb c = c\<lparr>pendingRequests := pendingRequests c @ [cb]\<rparr>"
  by (auto simp: addRequest.psimps addRequest_dom_active makeRequest.psimps
      makeRequest_dom_active)

lemma execActions_dom_active:
  "activeRequest c \<noteq> None \<Longrightarrow> execActions_addRequest_makeRequest_dom (Inl (as, c))"
proof (induction as arbitrary: c)
  case Nil
  show ?case by (rule execActions_addRequest_makeRequest.domintros)
next
  case (Cons a as)
  show ?case
  proof (cases a)
    case (SendBERNode node)
    have "activeRequest (sendBERNode node c) \<noteq> None"
      using Cons.prems by (simp add: sendBERNode_def sendBER_def)
    then show ?thesis
      unfolding SendBERNode
      by (intro execActions_addRequest_makeRequest.domintros Cons.IH)
  next
    case (AddRequest cb)
    have "activeRequest (addRequest cb c) \<noteq> None"
      using Cons.prems by (simp add: addRequest_active_partial)
    then show ?thesis
      unfolding AddRequest
      by (intro execActions_addRequest_makeRequest.domintros Cons.IH
          addRequest_dom_active Cons.prems)
  qed
qed

lemma makeRequest_dom: "execActions_addRequest_makeRequest_dom (Inr (Inr c))"
  by (rule execActions_addRequest_makeRequest.domintros) (simp add: execActions_dom_active)

lemma addRequest_dom: "execActions_addRequest_makeRequest_dom (Inr (Inl (cb, c)))"
  by (rule execActions_addRequest_makeRequest.domintros) (rule makeRequest_dom)

lemma execActions_dom: "execActions_addRequest_makeRequest_dom (Inl (as, c))"
proof (induction as arbitrary: c)
  case Nil
  show ?case by (rule execActions_addRequest_makeRequest.domintros)
next
  case (Cons a as)
  show ?case
    by (cases a)
      (auto intro: execActions_addRequest_makeRequest.domintros Cons.IH addRequest_dom)
qed

termination execActions
proof -
  have "execActions_addRequest_makeRequest_dom x" for x
  proof (cases x)
    case (Inl p)
    then show ?thesis by (cases p) (simp add: execActions_dom)
  next
    case (Inr y)
    show ?thesis
    proof (cases y)
      case (Inl q)
      with Inr show ?thesis by (cases q) (simp add: addRequest_dom)
    next
      case (Inr c')
      with \<open>x = Inr y\<close> show ?thesis by (simp add: makeRequest_dom)
    qed
  qed
  then show "All execActions_addRequest_makeRequest_dom" by blast
qed

declare makeRequest.simps [simp del] addRequest.simps [simp del]

section \<open>The tree server\<close>

subsection \<open>State, events and errors\<close>

text \<open>The values the server throws or emits with its \<^verbatim>\<open>error\<close> event.  \<open>InvalidRequest\<close>
  is \<^verbatim>\<open>new Error("invalid request")\<close> of \<^verbatim>\<open>handleRoot\<close>, \<open>InvalidRequestString\<close> the
  string \<^verbatim>\<open>"invalid request"\<close> that \<^verbatim>\<open>handleNode\<close> emits.  \<open>ReferenceError\<close> names the
  variable that is not defined, \<open>TypeError\<close> is a property read or a call on
  \<^verbatim>\<open>undefined\<close> or \<^verbatim>\<open>null\<close>.\<close>

datatype error =
    InvalidRequest
  | InvalidRequestString
  | UnknownElement path
  | InvalidRequestFormat
  | InvalidCommand "nat option"
  | TargetOutOfRange int int
  | InvalidSourcesFormat
  | ReferenceError string
  | TypeError

datatype emit_type = MatrixChange | MatrixConnect | MatrixDisconnect

datatype retval = Undefined | RootPath | ElementPath path

datatype event =
    ErrorEvent error
  | MatrixEvent emit_type int "int list" client_id
  | ValueChange path "val option"
  | RequestEvent client_id "root option" retval

text \<open>\<open>tree\<close> is the tree the server publishes, \<open>clients\<close> the set of live clients,
  \<open>subscribers\<close> the registry (a JavaScript \<^verbatim>\<open>Set\<close> per path, kept in insertion order),
  \<open>clientObjs\<close> the client objects and \<open>emitted\<close> the events emitted so far.\<close>

record TreeServer =
  tree :: "path \<rightharpoonup> element"
  clients :: "client_id set"
  subscribers :: "path \<rightharpoonup> client_id list"
  clientObjs :: "client_id \<Rightarrow> S101Client"
  emitted :: "event list"

definition emit :: "event \<Rightarrow> TreeServer \<Rightarrow> TreeServer" where
  "emit ev s = s\<lparr>emitted := emitted s @ [ev]\<rparr>"

text \<open>A method call on the client object \<open>client\<close>.\<close>

definition onClient :: "client_id \<Rightarrow> (S101Client \<Rightarrow> S101Client) \<Rightarrow> TreeServer \<Rightarrow> TreeServer" where
  "onClient client f s = s\<lparr>clientObjs := (clientObjs s)(client := f (clientObjs s client))\<rparr>"

text \<open>\<^verbatim>\<open>remoteAddress\<close> reads two properties of the socket, which is \<^verbatim>\<open>null\<close> once the
  client is disconnected; the address is represented by the client's identifier.\<close>

definition remoteAddress :: "client_id \<Rightarrow> TreeServer \<Rightarrow> error + client_id" where
  "remoteAddress client s = (if socket (clientObjs s client) then Inr client else Inl TypeError)"

text \<open>The two operations of a JavaScript \<^verbatim>\<open>Set\<close> the registry uses.\<close>

definition Set_add :: "'a \<Rightarrow> 'a list \<Rightarrow> 'a list" where
  "Set_add x xs = (if x \<in> set xs then xs else xs @ [x])"

definition Set_delete :: "'a \<Rightarrow> 'a list \<Rightarrow> 'a list" where
  "Set_delete x xs = removeAll x xs"

subsection \<open>Operations of the Ember+ library\<close>

text \<open>Modelled from the spec: path lookup, the tests \<^verbatim>\<open>is_parameter\<close>, \<^verbatim>\<open>is_matrix\<close> and
  \<^verbatim>\<open>is_stream\<close>, and \<^verbatim>\<open>get_children\<close> (\<open>None\<close> is \<^verbatim>\<open>null\<close>).  In the data model only
  a parameter has a stream identifier, so only a parameter can be a stream.\<close>

definition getElementByPath :: "TreeServer \<Rightarrow> path \<Rightarrow> element option" where
  "getElementByPath s p = tree s p"

definition isParameter :: "element \<Rightarrow> bool" where
  "isParameter e = (case body e of ParameterBody _ \<Rightarrow> True | _ \<Rightarrow> False)"

definition isMatrix :: "element \<Rightarrow> bool" where
  "isMatrix e = (case body e of MatrixBody _ _ \<Rightarrow> True | _ \<Rightarrow> False)"

definition isStream :: "element \<Rightarrow> bool" where
  "isStream e = (case body e of ParameterBody (Some c) \<Rightarrow> streamIdentifier c \<noteq> None | _ \<Rightarrow> False)"

definition getChildren :: "element \<Rightarrow> nat list option" where
  "getChildren e = children e"

text \<open>Modelled from the spec: \<^emph>\<open>absolute\<close> replaces the source set of the target with the
  sources given, \<^emph>\<open>connect\<close> unions them into it, \<^emph>\<open>disconnect\<close> removes them from it.\<close>

definition setSources :: "int list \<Rightarrow> int set \<Rightarrow> int set" where
  "setSources srcs old = set srcs"

definition connectSources :: "int list \<Rightarrow> int set \<Rightarrow> int set" where
  "connectSources srcs old = old \<union> set srcs"

definition disconnectSources :: "int list \<Rightarrow> int set \<Rightarrow> int set" where
  "disconnectSources srcs old = old - set srcs"

text \<open>Modelled from the spec: the children of an element, duplicated for a response.\<close>

definition duplicates :: "TreeServer \<Rightarrow> path \<Rightarrow> (nat \<times> element option) list" where
  "duplicates s p =
     (case tree s p of
        None \<Rightarrow> []
      | Some e \<Rightarrow> (case getChildren e of
                     None \<Rightarrow> []
                   | Some ns \<Rightarrow> map (\<lambda>n. (n, tree s (p @ [n]))) ns))"

subsection \<open>Responses and subscriptions\<close>

definition getResponse :: "TreeServer \<Rightarrow> path \<Rightarrow> response" where
  "getResponse s p = ElementResponse TreeBranchForm p (tree s p) (duplicates s p)"

definition getQualifiedResponse :: "TreeServer \<Rightarrow> path \<Rightarrow> response" where
  "getQualifiedResponse s p = ElementResponse QualifiedForm p (tree s p) (duplicates s p)"

definition handleError :: "client_id option \<Rightarrow> response option \<Rightarrow> TreeServer \<Rightarrow> TreeServer" where
  "handleError client node s =
     (case client of
        None \<Rightarrow> s
      | Some c \<Rightarrow>
          (let res = (case node of None \<Rightarrow> MinimalRoot | Some n \<Rightarrow> n)
           in onClient c (sendBERNode res) s))"

definition subscribe :: "client_id \<Rightarrow> path \<Rightarrow> TreeServer \<Rightarrow> TreeServer" where
  "subscribe client p s =
     (let subs = (case subscribers s p of None \<Rightarrow> [] | Some cs \<Rightarrow> cs)
      in s\<lparr>subscribers := (subscribers s)(p \<mapsto> Set_add client subs)\<rparr>)"

definition unsubscribe :: "client_id \<Rightarrow> path \<Rightarrow> TreeServer \<Rightarrow> TreeServer" where
  "unsubscribe client p s =
     (case subscribers s p of
        None \<Rightarrow> s
      | Some cs \<Rightarrow> s\<lparr>subscribers := (subscribers s)(p \<mapsto> Set_delete client cs)\<rparr>)"

definition handleSubscribe :: "client_id \<Rightarrow> path \<Rightarrow> TreeServer \<Rightarrow> TreeServer" where
  "handleSubscribe client p s = subscribe client p s"

definition handleUnSubscribe :: "client_id \<Rightarrow> path \<Rightarrow> TreeServer \<Rightarrow> TreeServer" where
  "handleUnSubscribe client p s = unsubscribe client p s"

text \<open>The loop of \<^verbatim>\<open>updateSubscribers\<close> over the subscribers of the path.  Deleting the
  client under the iterator does not disturb the iteration of a \<^verbatim>\<open>Set\<close>, and nothing is
  added during it, so the loop visits the members the set had when it started.\<close>

definition deleteSubscriber :: "path \<Rightarrow> client_id \<Rightarrow> TreeServer \<Rightarrow> TreeServer" where
  "deleteSubscriber p client s =
     (case subscribers s p of
        None \<Rightarrow> s
      | Some cs \<Rightarrow> s\<lparr>subscribers := (subscribers s)(p \<mapsto> Set_delete client cs)\<rparr>)"

fun updateLoop :: "path \<Rightarrow> response \<Rightarrow> client_id option \<Rightarrow> client_id list \<Rightarrow> TreeServer \<Rightarrow> TreeServer" where
  "updateLoop p res origin [] s = s"
| "updateLoop p res origin (client # cs) s =
     (if Some client = origin then updateLoop p res origin cs s
      else if client \<in> clients s then
        updateLoop p res origin cs (onClient client (queueMessage res) s)
      else updateLoop p res origin cs (deleteSubscriber p client s))"

definition updateSubscribers :: "path \<Rightarrow> response \<Rightarrow> client_id option \<Rightarrow> TreeServer \<Rightarrow> TreeServer" where
  "updateSubscribers p res origin s =
     (case subscribers s p of
        None \<Rightarrow> s
      | Some cs \<Rightarrow> updateLoop p res origin cs s)"

subsection \<open>Setting a parameter value\<close>

text \<open>\<^verbatim>\<open>setValue(element, value, origin, key)\<close> as the dispatcher calls it, with no
  \<^verbatim>\<open>key\<close>: the branch for a matrix needs a key and is not taken.  The element is the
  object found at the path; the original value goes into the \<^verbatim>\<open>value-change\<close> event.\<close>

definition setValue :: "path \<Rightarrow> val \<Rightarrow> client_id option \<Rightarrow> TreeServer \<Rightarrow> TreeServer" where
  "setValue p v origin s =
     (case tree s p of
        None \<Rightarrow> s
      | Some element \<Rightarrow>
          (case body element of
             ParameterBody (Some c) \<Rightarrow>
               (case paccess c of
                  None \<Rightarrow> s
                | Some a \<Rightarrow>
                    if access_value a > 1 then
                      (let orginalvalue = pvalue c;
                           s1 = s\<lparr>tree := (tree s)(p \<mapsto>
                                  element\<lparr>body := ParameterBody (Some (c\<lparr>pvalue := Some v\<rparr>))\<rparr>)\<rparr>
                       in emit (ValueChange p orginalvalue) s1)
                    else s)
           | _ \<Rightarrow> s))"

subsection \<open>Commands\<close>

text \<open>A function that may throw returns the state it reached and either the value
  thrown (\<open>Inl\<close>) or the value returned (\<open>Inr\<close>).\<close>

definition handleGetDirectory ::
  "client_id option \<Rightarrow> path \<Rightarrow> TreeServer \<Rightarrow> TreeServer \<times> (error + unit)" where
  "handleGetDirectory client p s =
     (case client of
        None \<Rightarrow> (s, Inr ())
      | Some c \<Rightarrow>
          (case tree s p of
             None \<Rightarrow> (s, Inl TypeError)
           | Some element \<Rightarrow>
               (let s1 =
                  (if (isMatrix element \<or> isParameter element) \<and> \<not> isStream element then
                     subscribe c p s
                   else (case getChildren element of
                           None \<Rightarrow> s
                         | Some ns \<Rightarrow> fold (\<lambda>n. subscribe c (p @ [n])) ns s))
                in (case request (clientObjs s1 c) of
                      None \<Rightarrow> (s1, Inl TypeError)
                    | Some req \<Rightarrow>
                        (let res = (if rpath req = None then getResponse s1 p
                                    else getQualifiedResponse s1 p)
                         in (onClient c (sendBERNode res) s1, Inr ()))))))"

definition handleCommand ::
  "client_id \<Rightarrow> path \<Rightarrow> nat option \<Rightarrow> TreeServer \<Rightarrow> TreeServer \<times> (error + unit)" where
  "handleCommand client p cmd s =
     (if cmd = Some GetDirectory then handleGetDirectory (Some client) p s
      else if cmd = Some Subscribe then (handleSubscribe client p s, Inr ())
      else if cmd = Some Unsubscribe then (handleUnSubscribe client p s, Inr ())
      else (emit (ErrorEvent (InvalidCommand cmd)) s, Inr ()))"

subsection \<open>Matrix connections\<close>

text \<open>\<^verbatim>\<open>matrix.connections[target]\<close>: the sources of the target, when the element is a
  matrix that has a connection for it.\<close>

definition matrixSources :: "TreeServer \<Rightarrow> path \<Rightarrow> int \<Rightarrow> int set option" where
  "matrixSources s p t =
     (case tree s p of
        Some e \<Rightarrow> (case body e of MatrixBody mc conns \<Rightarrow> conns t | _ \<Rightarrow> None)
      | None \<Rightarrow> None)"

definition putSources :: "path \<Rightarrow> int \<Rightarrow> int set \<Rightarrow> TreeServer \<Rightarrow> TreeServer" where
  "putSources p t srcs s =
     (case tree s p of
        Some e \<Rightarrow>
          (case body e of
             MatrixBody mc conns \<Rightarrow>
               s\<lparr>tree := (tree s)(p \<mapsto> e\<lparr>body := MatrixBody mc (conns(t \<mapsto> srcs))\<rparr>)\<rparr>
           | _ \<Rightarrow> s)
      | None \<Rightarrow> s)"

text \<open>The loop of \<^verbatim>\<open>handleMatrixConnections\<close> over the connections of the request, with the
  connections of the response built so far.  The connections are taken in the order the
  loop enumerates them.\<close>

fun connectionsLoop ::
  "client_id option \<Rightarrow> path \<Rightarrow> bool \<Rightarrow> connection list \<Rightarrow> (int \<rightharpoonup> conResult) \<Rightarrow> TreeServer
     \<Rightarrow> TreeServer \<times> (error + (int \<rightharpoonup> conResult))" where
  "connectionsLoop client p response [] res s = (s, Inr res)"
| "connectionsLoop client p response (con # cons) res s =
     (case matrixSources s p (target con) of
        None \<Rightarrow> (s, Inl TypeError)
      | Some old \<Rightarrow>
          (let (new, emitType) =
                 (if operation con = None \<or> operation con = Some OpAbsolute then
                    (setSources (sources con) old, MatrixChange)
                  else if operation con = Some OpConnect then
                    (connectSources (sources con) old, MatrixConnect)
                  else (disconnectSources (sources con) old, MatrixDisconnect));
               s1 = putSources p (target con) new s
           in if response then
                (case client of
                   None \<Rightarrow> (s1, Inl TypeError)
                 | Some c \<Rightarrow>
                     (case remoteAddress c s1 of
                        Inl e \<Rightarrow> (s1, Inl e)
                      | Inr address \<Rightarrow>
                          connectionsLoop client p response cons
                            (res(target con \<mapsto> \<lparr>res_sources = new,
                               res_disposition = Some DispModified, res_operation = None\<rparr>))
                            (emit (MatrixEvent emitType (target con) (sources con) address) s1)))
              else
                connectionsLoop client p response cons
                  (res(target con \<mapsto> \<lparr>res_sources = new,
                     res_disposition = None, res_operation = Some OpAbsolute\<rparr>))
                  s1))"

definition handleMatrixConnections ::
  "client_id option \<Rightarrow> path \<Rightarrow> connection list option \<Rightarrow> bool \<Rightarrow> TreeServer
     \<Rightarrow> TreeServer \<times> (error + unit)" where
  "handleMatrixConnections client p connections response s =
     (case tree s p of
        None \<Rightarrow> (s, Inl TypeError)
      | Some matrix \<Rightarrow>
          if \<not> isQualified matrix \<and> p = [] then (s, Inl TypeError)
          else
            (let form = (if isQualified matrix then QualifiedForm else TreeBranchForm);
                 cons = (case connections of None \<Rightarrow> [] | Some cs \<Rightarrow> cs)
             in (case connectionsLoop client p response cons Map.empty s of
                   (s1, Inl e) \<Rightarrow> (s1, Inl e)
                 | (s1, Inr res) \<Rightarrow>
                     (let root = MatrixResponse form p res;
                          s2 = (case client of
                                  None \<Rightarrow> s1
                                | Some c \<Rightarrow> onClient c (sendBERNode root) s1)
                      in (updateSubscribers p root client s2, Inr ())))))"

text \<open>The sources argument of the server-side calls is any JavaScript value: undefined,
  a value with no \<^verbatim>\<open>length\<close>, or a sequence.\<close>

datatype sources_arg = SourcesUndefined | SourcesNoLength | SourcesSeq "int list"

definition matrixContents :: "element \<Rightarrow> MatrixContents option" where
  "matrixContents e = (case body e of MatrixBody mc conns \<Rightarrow> mc | _ \<Rightarrow> None)"

text \<open>The first three messages of \<^verbatim>\<open>validateMatrixOperation\<close> interpolate a variable
  \<^verbatim>\<open>path\<close> that is not defined in the function, so what is thrown there is a
  \<^verbatim>\<open>ReferenceError\<close>.  \<open>None\<close> is the matrix that the lookup did not find.  Reading
  \<^verbatim>\<open>length\<close> of undefined sources throws a \<^verbatim>\<open>TypeError\<close>.\<close>

definition validateMatrixOperation :: "element option \<Rightarrow> int \<Rightarrow> sources_arg \<Rightarrow> error option" where
  "validateMatrixOperation matrix t srcs =
     (case matrix of
        None \<Rightarrow> Some (ReferenceError ''path'')
      | Some m \<Rightarrow>
          (case matrixContents m of
             None \<Rightarrow> Some (ReferenceError ''path'')
           | Some mc \<Rightarrow>
               (case targetCount mc of
                  None \<Rightarrow> Some (ReferenceError ''path'')
                | Some n \<Rightarrow>
                    if t < 0 \<or> t \<ge> n then Some (TargetOutOfRange t n)
                    else (case srcs of
                            SourcesUndefined \<Rightarrow> Some TypeError
                          | SourcesNoLength \<Rightarrow> Some InvalidSourcesFormat
                          | SourcesSeq xs \<Rightarrow> None))))"

definition doMatrixOperation ::
  "path \<Rightarrow> int \<Rightarrow> sources_arg \<Rightarrow> MatrixOperation \<Rightarrow> TreeServer \<Rightarrow> TreeServer \<times> (error + unit)" where
  "doMatrixOperation p t srcs op s =
     (let matrix = getElementByPath s p
      in (case validateMatrixOperation matrix t srcs of
            Some e \<Rightarrow> (s, Inl e)
          | None \<Rightarrow>
              (case srcs of
                 SourcesSeq xs \<Rightarrow>
                   handleMatrixConnections None p
                     (Some [\<lparr>target = t, sources = xs, operation = Some op\<rparr>]) False s
               | _ \<Rightarrow> (s, Inl TypeError))))"



definition matrixSet ::
  "path \<Rightarrow> int \<Rightarrow> sources_arg \<Rightarrow> TreeServer \<Rightarrow> TreeServer \<times> (error + unit)" where
  "matrixSet p t srcs s = doMatrixOperation p t srcs OpAbsolute s"

subsection \<open>Dispatch of a request\<close>

definition handleQualifiedMatrix ::
  "client_id \<Rightarrow> path \<Rightarrow> request \<Rightarrow> TreeServer \<Rightarrow> TreeServer \<times> (error + unit)" where
  "handleQualifiedMatrix client p matrix s =
     handleMatrixConnections (Some client) p (rconnections matrix) True s"

definition handleQualifiedParameter ::
  "client_id \<Rightarrow> path \<Rightarrow> request \<Rightarrow> TreeServer \<Rightarrow> TreeServer \<times> (error + unit)" where
  "handleQualifiedParameter client p parameter s =
     (case rcontents parameter of
        None \<Rightarrow> (s, Inl TypeError)
      | Some None \<Rightarrow> (s, Inr ())
      | Some (Some v) \<Rightarrow>
          (let s1 = setValue p v (Some client) s;
               res = getQualifiedResponse s1 p;
               s2 = onClient client (sendBERNode res) s1
           in (updateSubscribers p res (Some client) s2, Inr ())))"

text \<open>\<^verbatim>\<open>handleQualifiedNode\<close> is called for a node whose path is defined.\<close>

definition handleQualifiedNode ::
  "client_id \<Rightarrow> request \<Rightarrow> TreeServer \<Rightarrow> TreeServer \<times> (error + retval)" where
  "handleQualifiedNode client node s =
     (case rpath node of
        None \<Rightarrow> (s, Inl TypeError)
      | Some p \<Rightarrow>
          (case getElementByPath s p of
             None \<Rightarrow>
               (handleError (Some client) None (emit (ErrorEvent (UnknownElement p)) s),
                Inr Undefined)
           | Some element \<Rightarrow>
               (let r =
                  (case rchildren node of
                     Some [child] \<Rightarrow>
                       if rkind child = Command then handleCommand client p (rnumber child) s
                       else if rkind node = QualifiedMatrix then
                         handleQualifiedMatrix client p node s
                       else if rkind node = QualifiedParameter then
                         handleQualifiedParameter client p node s
                       else (s, Inr ())
                   | _ \<Rightarrow>
                       if rkind node = QualifiedMatrix then
                         handleQualifiedMatrix client p node s
                       else if rkind node = QualifiedParameter then
                         handleQualifiedParameter client p node s
                       else (s, Inr ()))
                in (case r of
                      (s1, Inl e) \<Rightarrow> (s1, Inl e)
                    | (s1, Inr u) \<Rightarrow> (s1, Inr (ElementPath p))))))"

text \<open>The loop of \<^verbatim>\<open>handleNode\<close> that follows the first child down to the deepest element
  or to a command.  \<open>None\<close> is the exit on an element with no number; otherwise the loop
  gives the path collected and the element it stopped at.  The loop always stops at an
  element, so the test \<^verbatim>\<open>cmd === undefined\<close> that follows it in the source never holds.\<close>

fun traverse :: "request \<Rightarrow> path \<Rightarrow> (path \<times> request) option" where
  "traverse (Request k qp num ch ct cn) p =
     (case num of
        None \<Rightarrow> None
      | Some n \<Rightarrow>
          if k = Command then Some (p, Request k qp num ch ct cn)
          else (case ch of
                  None \<Rightarrow> Some (p @ [n], Request k qp num ch ct cn)
                | Some [] \<Rightarrow> Some (p @ [n], Request k qp num ch ct cn)
                | Some (child # rest) \<Rightarrow> traverse child (p @ [n])))"

definition handleNode ::
  "client_id \<Rightarrow> request \<Rightarrow> TreeServer \<Rightarrow> TreeServer \<times> (error + retval)" where
  "handleNode client node s =
     (case traverse node [] of
        None \<Rightarrow> (emit (ErrorEvent InvalidRequestString) s, Inr Undefined)
      | Some (p, cmd) \<Rightarrow>
          (case getElementByPath s p of
             None \<Rightarrow>
               (handleError (Some client) None (emit (ErrorEvent (UnknownElement p)) s),
                Inr Undefined)
           | Some element \<Rightarrow>
               if rkind cmd = Command then
                 (case handleCommand client p (rnumber cmd) s of
                    (s1, Inl e) \<Rightarrow> (s1, Inl e)
                  | (s1, Inr u) \<Rightarrow> (s1, Inr (ElementPath p)))
               else if rkind cmd = MatrixNode \<and> rconnections cmd \<noteq> None then
                 (case handleMatrixConnections (Some client) p (rconnections cmd) True s of
                    (s1, Inl e) \<Rightarrow> (s1, Inl e)
                  | (s1, Inr u) \<Rightarrow> (s1, Inr (ElementPath p)))
               else
                 (case (rkind cmd, rcontents cmd) of
                    (Parameter, Some (Some v)) \<Rightarrow>
                      (let s1 = setValue p v (Some client) s;
                           res = getResponse s1 p;
                           s2 = onClient client (sendBERNode res) s1
                       in (updateSubscribers p res (Some client) s2, Inr (ElementPath p)))
                  | _ \<Rightarrow>
                      (handleError (Some client) (Some (ElementBranch p))
                         (emit (ErrorEvent InvalidRequestFormat) s),
                       Inr Undefined))))"

text \<open>\<^verbatim>\<open>root.elements < 1\<close> compares the array with a number: the empty array converts
  to 0, an array of one or more element objects converts to \<^verbatim>\<open>NaN\<close>, so the test holds
  for the empty array only.\<close>

definition handleRoot ::
  "client_id \<Rightarrow> root option \<Rightarrow> TreeServer \<Rightarrow> TreeServer \<times> (error + retval)" where
  "handleRoot client r s =
     (case r of
        None \<Rightarrow> (emit (ErrorEvent InvalidRequest) s, Inr Undefined)
      | Some rt \<Rightarrow>
          (case elements rt of
             None \<Rightarrow> (emit (ErrorEvent InvalidRequest) s, Inr Undefined)
           | Some [] \<Rightarrow> (emit (ErrorEvent InvalidRequest) s, Inr Undefined)
           | Some (node # others) \<Rightarrow>
               (let s1 = onClient client (\<lambda>c. c\<lparr>request := Some node\<rparr>) s
                in if rpath node \<noteq> None then handleQualifiedNode client node s1
                   else if rkind node = Command then
                     (case handleCommand client [] (rnumber node) s1 of
                        (s2, Inl e) \<Rightarrow> (s2, Inl e)
                      | (s2, Inr u) \<Rightarrow> (s2, Inr RootPath))
                   else handleNode client node s1)))"

text \<open>The callback the server queues for an \<^verbatim>\<open>emberTree\<close> event of a client: what
  \<^verbatim>\<open>handleRoot\<close> throws is caught and emitted as an \<^verbatim>\<open>error\<close> event.\<close>

definition onEmberTree :: "client_id \<Rightarrow> root option \<Rightarrow> TreeServer \<Rightarrow> TreeServer" where
  "onEmberTree client r s =
     (case handleRoot client r s of
        (s1, Inl e) \<Rightarrow> emit (ErrorEvent e) s1
      | (s1, Inr p) \<Rightarrow>
          (case remoteAddress client s1 of
             Inl e \<Rightarrow> emit (ErrorEvent e) s1
           | Inr address \<Rightarrow> emit (RequestEvent address r p) s1))"

section \<open>Notions used in the statements\<close>

text \<open>A callback is \<open>plain\<close> when it only writes nodes, as the callback of
  \<^verbatim>\<open>queueMessage\<close> does; \<open>nodes\<close> are the nodes it writes.  A client is \<open>idle\<close> when no
  request is active and none is pending, as a new client is.\<close>

fun isSend :: "action \<Rightarrow> bool" where
  "isSend (SendBERNode node) = True"
| "isSend (AddRequest cb) = False"

definition plain :: "work \<Rightarrow> bool" where
  "plain cb = list_all isSend (actions cb)"

definition nodes :: "work \<Rightarrow> response list" where
  "nodes cb =
     concat (map (\<lambda>a. case a of SendBERNode node \<Rightarrow> [node] | AddRequest w \<Rightarrow> []) (actions cb))"

definition idle :: "S101Client \<Rightarrow> bool" where
  "idle c = (activeRequest c = None \<and> pendingRequests c = [])"

definition writeAll :: "response list \<Rightarrow> S101Client \<Rightarrow> S101Client" where
  "writeAll ns c = c\<lparr>written := written c @ (if socket c then ns else [])\<rparr>"

definition newClient :: S101Client where
  "newClient =
     \<lparr>socket = True, request = None, pendingRequests = [], activeRequest = None, written = []\<rparr>"


text \<open>The subscribers of a path and the children of an element, as lists (empty when
  there is no entry).\<close>

definition subscribersOf :: "TreeServer \<Rightarrow> path \<Rightarrow> client_id list" where
  "subscribersOf s p = (case subscribers s p of None \<Rightarrow> [] | Some cs \<Rightarrow> cs)"

definition childrenOf :: "element \<Rightarrow> nat list" where
  "childrenOf e = (case getChildren e of None \<Rightarrow> [] | Some ns \<Rightarrow> ns)"

text \<open>A server to instantiate the theorems on: a node \<open>1\<close> with the read-write parameter
  \<open>1.2\<close> of value 10 and the read-only parameter \<open>1.4\<close> of value 7, and the matrix
  \<open>3\<close> with four targets, target 1 connected to source 0.  Clients 0 and 1 are live;
  client 2 is gone but still subscribed.\<close>

definition exampleTree :: "path \<rightharpoonup> element" where
  "exampleTree =
     [[] \<mapsto> \<lparr>isQualified = False, body = RootBody, children = Some [1, 3]\<rparr>,
      [1] \<mapsto> \<lparr>isQualified = False, body = NodeBody, children = Some [2, 4]\<rparr>,
      [1, 2] \<mapsto> \<lparr>isQualified = False,
         body = ParameterBody (Some \<lparr>pvalue = Some (VInt 10),
           paccess = Some AccessReadWrite, streamIdentifier = None\<rparr>),
         children = None\<rparr>,
      [1, 4] \<mapsto> \<lparr>isQualified = False,
         body = ParameterBody (Some \<lparr>pvalue = Some (VInt 7),
           paccess = Some AccessRead, streamIdentifier = None\<rparr>),
         children = None\<rparr>,
      [3] \<mapsto> \<lparr>isQualified = False,
         body = MatrixBody (Some \<lparr>targetCount = Some 4\<rparr>)
           [0 \<mapsto> {}, 1 \<mapsto> {0}, 2 \<mapsto> {}, 3 \<mapsto> {}],
         children = None\<rparr>]"

definition exampleServer :: TreeServer where
  "exampleServer =
     \<lparr>tree = exampleTree, clients = {0, 1},
      subscribers = [[1, 2] \<mapsto> [0, 1, 2], [3] \<mapsto> [1, 2]],
      clientObjs = (\<lambda>c. newClient), emitted = []\<rparr>"


text \<open>What a request of the client \<open>origin\<close> on the path \<open>p\<close> makes of the client objects
  when it is answered with \<open>res\<close>: the origin is sent the response directly, every other
  subscriber of the path that is a live client gets it through \<^verbatim>\<open>queueMessage\<close>, and no
  other client gets anything.  With no origin, every live subscriber gets it.\<close>

definition deliver :: "client_id option \<Rightarrow> path \<Rightarrow> response \<Rightarrow> TreeServer \<Rightarrow> client_id \<Rightarrow> S101Client" where
  "deliver origin p res s c =
     (if Some c = origin then sendBERNode res (clientObjs s c)
      else if c \<in> set (subscribersOf s p) \<and> c \<in> clients s then queueMessage res (clientObjs s c)
      else clientObjs s c)"


text \<open>Requests to instantiate the theorems on: a qualified parameter carrying a value,
  and the same as a tree branch below node \<open>1\<close>, for the parameters \<open>1.2\<close> and \<open>1.4\<close>;
  the response to the former when the value is 42.\<close>

definition qualifiedSet :: "path \<Rightarrow> val \<Rightarrow> request" where
  "qualifiedSet p v = Request QualifiedParameter (Some p) None None (Some (Some v)) None"

definition branchSet :: "val \<Rightarrow> request" where
  "branchSet v =
     Request Node None (Some 1)
       (Some [Request Parameter None (Some 2) None (Some (Some v)) None]) None None"

definition branchSet4 :: "val \<Rightarrow> request" where
  "branchSet4 v =
     Request Node None (Some 1)
       (Some [Request Parameter None (Some 4) None (Some (Some v)) None]) None None"

definition exampleAnswer :: "form \<Rightarrow> response" where
  "exampleAnswer f =
     ElementResponse f [1, 2]
       (Some \<lparr>isQualified = False,
          body = ParameterBody (Some \<lparr>pvalue = Some (VInt 42),
            paccess = Some AccessReadWrite, streamIdentifier = None\<rparr>),
          children = None\<rparr>) []"


text \<open>The matrix operations in the words of the specification: \<^emph>\<open>absolute\<close> replaces the
  source set of the target with the sources given, \<^emph>\<open>connect\<close> unions them into it,
  \<^emph>\<open>disconnect\<close> removes them from it, and an omitted operation is treated as
  \<^emph>\<open>absolute\<close>; \<open>applyConnections\<close> applies the connections of a request in order to the
  targets the matrix has.  \<open>eventOf\<close> is the event of a connection of a request,
  \<open>resultOf\<close> the connection of a response for the sources a target ends with (with the
  disposition \<^emph>\<open>modified\<close> in the response to a request, with the operation
  \<^emph>\<open>absolute\<close> otherwise), and \<open>touched\<close> the connections of the response: one for each
  target the request names.\<close>

fun applyOperation :: "MatrixOperation option \<Rightarrow> int list \<Rightarrow> int set \<Rightarrow> int set" where
  "applyOperation None srcs old = set srcs"
| "applyOperation (Some OpAbsolute) srcs old = set srcs"
| "applyOperation (Some OpConnect) srcs old = old \<union> set srcs"
| "applyOperation (Some OpDisconnect) srcs old = old - set srcs"

fun applyConnections :: "connection list \<Rightarrow> (int \<rightharpoonup> int set) \<Rightarrow> (int \<rightharpoonup> int set)" where
  "applyConnections [] conns = conns"
| "applyConnections (con # cons) conns =
     applyConnections cons
       (case conns (target con) of
          None \<Rightarrow> conns
        | Some old \<Rightarrow> conns(target con \<mapsto> applyOperation (operation con) (sources con) old))"






text \<open>The number of errors of the guard of \<^verbatim>\<open>handleRoot\<close> among the events emitted.\<close>

definition guardErrors :: "TreeServer \<Rightarrow> nat" where
  "guardErrors s = count_list (emitted s) (ErrorEvent InvalidRequest)"



definition twoCommands :: root where
  "twoCommands =
     \<lparr>elements = Some [Request Command None (Some Subscribe) None None None,
                       Request Command None (Some Unsubscribe) None None None]\<rparr>"

definition badConnections :: root where
  "badConnections =
     \<lparr>elements = Some [Request MatrixNode None (Some 3) None None
        (Some [\<lparr>target = 0, sources = [1], operation = Some OpAbsolute\<rparr>,
               \<lparr>target = 9, sources = [1], operation = None\<rparr>])]\<rparr>"



section \<open>The request queue of a client\<close>

lemma addRequest_active:
  "activeRequest c \<noteq> None \<Longrightarrow>
   addRequest cb c = c\<lparr>pendingRequests := pendingRequests c @ [cb]\<rparr>"
  by (auto simp: addRequest.simps makeRequest.simps)

lemma execActions_sends:
  "list_all isSend as \<Longrightarrow>
   execActions as c =
     writeAll
       (concat (map (\<lambda>a. case a of SendBERNode node \<Rightarrow> [node] | AddRequest w \<Rightarrow> []) as)) c"
proof (induction as arbitrary: c)
  case Nil
  show ?case by (simp add: writeAll_def)
next
  case (Cons a as)
  then show ?case
    by (cases a) (auto simp: writeAll_def sendBERNode_def sendBER_def isConnected_def)
qed

lemma execActions_plain: "plain cb \<Longrightarrow> execActions (actions cb) c = writeAll (nodes cb) c"
  by (simp add: plain_def nodes_def execActions_sends)

lemma addRequest_pump:
  assumes "activeRequest c = None" and "plain (hd (pendingRequests c @ [cb]))"
  shows "addRequest cb c =
    (writeAll (nodes (hd (pendingRequests c @ [cb]))) c)
      \<lparr>pendingRequests := tl (pendingRequests c @ [cb])\<rparr>"
  using assms
  by (simp add: addRequest.simps
      makeRequest.simps[of "c\<lparr>pendingRequests := pendingRequests c @ [cb]\<rparr>"]
      Let_def execActions_plain writeAll_def)

lemma addRequest_idle:
  assumes "idle c" and "plain cb"
  shows "addRequest cb c = writeAll (nodes cb) c"
  using assms addRequest_pump[of c cb] by (simp add: idle_def writeAll_def)

lemma queueMessage_idle:
  "idle c \<Longrightarrow> queueMessage node c = sendBERNode node c"
  using addRequest_idle[of c "Work [SendBERNode node]"]
  by (simp add: queueMessage_def plain_def nodes_def writeAll_def sendBERNode_def
      sendBER_def isConnected_def)

lemma fold_addRequest_idle:
  "idle c \<Longrightarrow> list_all plain cbs \<Longrightarrow>
   fold addRequest cbs c = writeAll (concat (map nodes cbs)) c"
proof (induction cbs arbitrary: c)
  case Nil
  show ?case by (simp add: writeAll_def)
next
  case (Cons cb cbs)
  have "idle (writeAll (nodes cb) c)"
    using Cons.prems by (simp add: idle_def writeAll_def)
  then show ?case
    using Cons by (simp add: addRequest_idle writeAll_def)
qed

text \<open>
  Claim C3, as the code has it.  \<^verbatim>\<open>addRequest\<close> appends the callback and pumps once.
  While a request is active the callback is only appended.  When no request is active,
  the oldest pending callback, and only that one, is taken from the queue and run to
  completion.  Hence callbacks added one after the other to an idle client, none of which
  adds a request to this client while it runs, are each run at once, exactly once and in
  the order they were added, and the client is idle again: what they write is written in
  that order.
\<close>

theorem addRequest_fifo:
  "(activeRequest c1 \<noteq> None \<longrightarrow>
      addRequest cb1 c1 = c1\<lparr>pendingRequests := pendingRequests c1 @ [cb1]\<rparr>) \<and>
   (activeRequest c2 = None \<and> plain (hd (pendingRequests c2 @ [cb2])) \<longrightarrow>
      addRequest cb2 c2 =
        (writeAll (nodes (hd (pendingRequests c2 @ [cb2]))) c2)
          \<lparr>pendingRequests := tl (pendingRequests c2 @ [cb2])\<rparr>) \<and>
   (idle c3 \<and> list_all plain cbs \<longrightarrow>
      fold addRequest cbs c3 = writeAll (concat (map nodes cbs)) c3)"
  using addRequest_active addRequest_pump fold_addRequest_idle by blast

theorem addRequest_fifo_witness:
  "addRequest (Work [SendBERNode MinimalRoot]) (newClient\<lparr>activeRequest := Some (Work [])\<rparr>) =
     newClient\<lparr>activeRequest := Some (Work []),
       pendingRequests := [Work [SendBERNode MinimalRoot]]\<rparr> \<and>
   addRequest (Work [SendBERNode MinimalRoot])
       (newClient\<lparr>pendingRequests := [Work [SendBERNode (ElementBranch [1])]]\<rparr>) =
     newClient\<lparr>written := [ElementBranch [1]],
       pendingRequests := [Work [SendBERNode MinimalRoot]]\<rparr> \<and>
   fold addRequest [Work [SendBERNode MinimalRoot], Work [SendBERNode (ElementBranch [1])]]
       newClient =
     newClient\<lparr>written := [MinimalRoot, ElementBranch [1]]\<rparr>"
  using addRequest_fifo[of "newClient\<lparr>activeRequest := Some (Work [])\<rparr>"
      "Work [SendBERNode MinimalRoot]"
      "newClient\<lparr>pendingRequests := [Work [SendBERNode (ElementBranch [1])]]\<rparr>"
      "Work [SendBERNode MinimalRoot]"
      newClient
      "[Work [SendBERNode MinimalRoot], Work [SendBERNode (ElementBranch [1])]]"]
  by (simp add: newClient_def plain_def nodes_def idle_def writeAll_def)

text \<open>
  Claim C3 as it is stated fails: a callback that queues a message for its own client
  while it runs (\<^verbatim>\<open>queueMessage\<close> during dispatch) leaves that message pending when the
  pump returns, with no request active, and the next \<^verbatim>\<open>addRequest\<close> runs the pending
  message and leaves its own callback pending in turn.
\<close>

theorem queued_during_dispatch_stays_pending:
  "addRequest
      (Work [SendBERNode MinimalRoot, AddRequest (Work [SendBERNode (ElementBranch [1])])])
      newClient =
     newClient\<lparr>written := [MinimalRoot],
       pendingRequests := [Work [SendBERNode (ElementBranch [1])]]\<rparr> \<and>
   addRequest (Work [SendBERNode (ElementBranch [2])])
      (newClient\<lparr>written := [MinimalRoot],
         pendingRequests := [Work [SendBERNode (ElementBranch [1])]]\<rparr>) =
     newClient\<lparr>written := [MinimalRoot, ElementBranch [1]],
       pendingRequests := [Work [SendBERNode (ElementBranch [2])]]\<rparr>"
  by (simp add: newClient_def addRequest.simps makeRequest.simps sendBERNode_def
      sendBER_def isConnected_def)

section \<open>The subscription registry\<close>

lemma onClient_fields [simp]:
  "tree (onClient c f s) = tree s"
  "clients (onClient c f s) = clients s"
  "subscribers (onClient c f s) = subscribers s"
  "emitted (onClient c f s) = emitted s"
  "clientObjs (onClient c f s) = (clientObjs s)(c := f (clientObjs s c))"
  by (simp_all add: onClient_def)

lemma deleteSubscriber_fields [simp]:
  "tree (deleteSubscriber p c s) = tree s"
  "clients (deleteSubscriber p c s) = clients s"
  "clientObjs (deleteSubscriber p c s) = clientObjs s"
  "emitted (deleteSubscriber p c s) = emitted s"
  by (simp_all add: deleteSubscriber_def split: option.splits)

lemma deleteSubscriber_subscribers:
  "subscribers (deleteSubscriber p c s) =
     (case subscribers s p of
        None \<Rightarrow> subscribers s
      | Some xs \<Rightarrow> (subscribers s)(p \<mapsto> removeAll c xs))"
  by (simp add: deleteSubscriber_def Set_delete_def split: option.splits)

lemma emit_fields [simp]:
  "tree (emit ev s) = tree s"
  "clients (emit ev s) = clients s"
  "subscribers (emit ev s) = subscribers s"
  "clientObjs (emit ev s) = clientObjs s"
  "emitted (emit ev s) = emitted s @ [ev]"
  by (simp_all add: emit_def)

lemma updateLoop_fields [simp]:
  "tree (updateLoop p res origin cs s) = tree s"
  "clients (updateLoop p res origin cs s) = clients s"
  "emitted (updateLoop p res origin cs s) = emitted s"
  by (induction cs arbitrary: s; simp)+

lemma updateLoop_clientObjs_other:
  "c \<notin> set cs \<Longrightarrow> clientObjs (updateLoop p res origin cs s) c = clientObjs s c"
  by (induction cs arbitrary: s) auto

lemma updateLoop_clientObjs:
  "distinct cs \<Longrightarrow>
   clientObjs (updateLoop p res origin cs s) c =
     (if c \<in> set cs \<and> Some c \<noteq> origin \<and> c \<in> clients s
      then queueMessage res (clientObjs s c) else clientObjs s c)"
proof (induction cs arbitrary: s)
  case Nil
  show ?case by simp
next
  case (Cons a cs)
  then show ?case
    by (auto simp: updateLoop_clientObjs_other)
qed

lemma updateLoop_subscribers:
  "subscribers (updateLoop p res origin cs s) =
     (case subscribers s p of
        None \<Rightarrow> subscribers s
      | Some xs \<Rightarrow>
          (subscribers s)(p \<mapsto>
             filter (\<lambda>c. \<not> (c \<in> set cs \<and> Some c \<noteq> origin \<and> c \<notin> clients s)) xs))"
proof (induction cs arbitrary: s)
  case Nil
  show ?case by (auto split: option.splits)
next
  case (Cons a cs)
  show ?case
    apply (simp add: Cons.IH deleteSubscriber_subscribers split: option.splits)
    apply (auto simp: removeAll_filter_not_eq intro!: filter_cong arg_cong2[where f="\<lambda>a b. (subscribers s)(a \<mapsto> b)"])
    done
qed

lemma updateSubscribers_fields [simp]:
  "tree (updateSubscribers p res origin s) = tree s"
  "clients (updateSubscribers p res origin s) = clients s"
  "emitted (updateSubscribers p res origin s) = emitted s"
  by (simp_all add: updateSubscribers_def split: option.splits)

lemma updateSubscribers_clientObjs:
  "distinct (subscribersOf s p) \<Longrightarrow>
   clientObjs (updateSubscribers p res origin s) c =
     (if c \<in> set (subscribersOf s p) \<and> Some c \<noteq> origin \<and> c \<in> clients s
      then queueMessage res (clientObjs s c) else clientObjs s c)"
  by (simp add: updateSubscribers_def subscribersOf_def updateLoop_clientObjs
      split: option.splits)

lemma updateSubscribers_clientObjs_other:
  "c \<notin> set (subscribersOf s p) \<Longrightarrow>
   clientObjs (updateSubscribers p res origin s) c = clientObjs s c"
  by (simp add: updateSubscribers_def subscribersOf_def updateLoop_clientObjs_other
      split: option.splits)

lemma updateSubscribers_subscribers:
  "subscribers (updateSubscribers p res origin s) =
     (case subscribers s p of
        None \<Rightarrow> subscribers s
      | Some xs \<Rightarrow>
          (subscribers s)(p \<mapsto> filter (\<lambda>c. Some c = origin \<or> c \<in> clients s) xs))"
  by (auto simp: updateSubscribers_def updateLoop_subscribers split: option.splits
      intro!: filter_cong arg_cong2[where f="\<lambda>a b. (subscribers s)(a \<mapsto> b)"])

text \<open>
  Claim C7.  A fan-out \<^verbatim>\<open>updateSubscribers(path, response, origin)\<close> leaves the client
  object of the origin as it is (the origin is skipped: it gets no copy from the fan-out);
  every other subscriber of the path that is in the set of live clients gets the response
  through \<^verbatim>\<open>queueMessage\<close>, once; every other subscriber that is not in the live set is
  deleted from the subscribers of the path, and no one else is; clients that are not
  subscribed, the other paths of the registry, the tree and the events are untouched.
\<close>

theorem updateSubscribers_fanout:
  assumes "distinct (subscribersOf s p)"
  shows "clientObjs (updateSubscribers p res origin s) =
      (\<lambda>c. if c \<in> set (subscribersOf s p) \<and> Some c \<noteq> origin \<and> c \<in> clients s
           then queueMessage res (clientObjs s c) else clientObjs s c) \<and>
    subscribersOf (updateSubscribers p res origin s) p =
      filter (\<lambda>c. Some c = origin \<or> c \<in> clients s) (subscribersOf s p) \<and>
    (\<forall>q. q \<noteq> p \<longrightarrow>
       subscribers (updateSubscribers p res origin s) q = subscribers s q) \<and>
    tree (updateSubscribers p res origin s) = tree s \<and>
    clients (updateSubscribers p res origin s) = clients s \<and>
    emitted (updateSubscribers p res origin s) = emitted s"
  using assms
  by (auto simp: updateSubscribers_clientObjs updateSubscribers_subscribers subscribersOf_def
      split: option.splits)

lemma queueMessage_newClient: "queueMessage res newClient = newClient\<lparr>written := [res]\<rparr>"
  by (simp add: queueMessage_idle idle_def newClient_def sendBERNode_def sendBER_def isConnected_def)

theorem updateSubscribers_fanout_witness:
  "distinct (subscribersOf exampleServer [1, 2]) \<and>
   clientObjs (updateSubscribers [1, 2] MinimalRoot (Some 0) exampleServer) 0 = newClient \<and>
   clientObjs (updateSubscribers [1, 2] MinimalRoot (Some 0) exampleServer) 1 =
     newClient\<lparr>written := [MinimalRoot]\<rparr> \<and>
   clientObjs (updateSubscribers [1, 2] MinimalRoot (Some 0) exampleServer) 2 = newClient \<and>
   subscribersOf (updateSubscribers [1, 2] MinimalRoot (Some 0) exampleServer) [1, 2] = [0, 1]"
  using updateSubscribers_fanout[of exampleServer "[1, 2]" MinimalRoot "Some 0"]
  by (simp add: exampleServer_def subscribersOf_def queueMessage_newClient)

lemma unsubscribe_fields [simp]:
  "tree (unsubscribe c p s) = tree s"
  "clients (unsubscribe c p s) = clients s"
  "clientObjs (unsubscribe c p s) = clientObjs s"
  "emitted (unsubscribe c p s) = emitted s"
  by (simp_all add: unsubscribe_def split: option.splits)

lemma subscribe_fields [simp]:
  "tree (subscribe c p s) = tree s"
  "clients (subscribe c p s) = clients s"
  "clientObjs (subscribe c p s) = clientObjs s"
  "emitted (subscribe c p s) = emitted s"
  "subscribers (subscribe c p s) = (subscribers s)(p \<mapsto> Set_add c (subscribersOf s p))"
  by (simp_all add: subscribe_def subscribersOf_def Let_def)

lemma subscribersOf_unsubscribe:
  "subscribersOf (unsubscribe c p s) q =
     (if q = p then removeAll c (subscribersOf s p) else subscribersOf s q)"
  by (simp add: unsubscribe_def subscribersOf_def Set_delete_def split: option.splits)

lemma unsubscribe_absent:
  "subscribers s p = None \<or> c \<notin> set (subscribersOf s p) \<Longrightarrow> unsubscribe c p s = s"
  by (auto simp: unsubscribe_def subscribersOf_def Set_delete_def map_upd_triv
      split: option.splits)

text \<open>
  Claim C9.  \<^verbatim>\<open>unsubscribe\<close> removes the client from the subscribers of the path and
  from no other path; it changes nothing when the path has no entry in the registry or
  the client is not among its subscribers.  After \<^verbatim>\<open>subscribe\<close> and then
  \<^verbatim>\<open>unsubscribe\<close> of a path the client is not a subscriber of the path, and a fan-out
  for the path, whatever the response and the origin, leaves the client object as it
  was: nothing is queued for it.
\<close>

theorem unsubscribe_no_fanout:
  "set (subscribersOf (unsubscribe client p s) p) = set (subscribersOf s p) - {client} \<and>
   (\<forall>q. q \<noteq> p \<longrightarrow> subscribers (unsubscribe client p s) q = subscribers s q) \<and>
   (subscribers s p = None \<or> client \<notin> set (subscribersOf s p) \<longrightarrow>
      unsubscribe client p s = s) \<and>
   client \<notin> set (subscribersOf (unsubscribe client p (subscribe client p s)) p) \<and>
   clientObjs (updateSubscribers p res origin (unsubscribe client p (subscribe client p s)))
       client = clientObjs s client"
proof -
  have "client \<notin> set (subscribersOf (unsubscribe client p (subscribe client p s)) p)"
    by (simp add: subscribersOf_unsubscribe)
  then have "clientObjs
      (updateSubscribers p res origin (unsubscribe client p (subscribe client p s))) client =
      clientObjs s client"
    by (simp add: updateSubscribers_clientObjs_other)
  moreover have "\<forall>q. q \<noteq> p \<longrightarrow> subscribers (unsubscribe client p s) q = subscribers s q"
    by (simp add: unsubscribe_def split: option.splits)
  ultimately show ?thesis
    using unsubscribe_absent[of s p client]
    by (auto simp: subscribersOf_unsubscribe)
qed

theorem unsubscribe_no_fanout_witness:
  "set (subscribersOf (unsubscribe 1 [3] exampleServer) [3]) = {2} \<and>
   subscribers (unsubscribe 1 [3] exampleServer) [1, 2] = Some [0, 1, 2] \<and>
   unsubscribe 0 [3] exampleServer = exampleServer \<and>
   0 \<notin> set (subscribersOf (unsubscribe 0 [3] (subscribe 0 [3] exampleServer)) [3]) \<and>
   clientObjs (updateSubscribers [3] MinimalRoot None
       (unsubscribe 0 [3] (subscribe 0 [3] exampleServer))) 0 = newClient"
  using unsubscribe_no_fanout[of 1 "[3]" exampleServer MinimalRoot None]
    unsubscribe_no_fanout[of 0 "[3]" exampleServer MinimalRoot None]
  by (simp add: exampleServer_def subscribersOf_def)

section \<open>GetDirectory\<close>

lemma Set_add_idem: "Set_add c (Set_add c xs) = Set_add c xs"
  by (simp add: Set_add_def)

lemma Set_add_member: "c \<in> set (Set_add c xs)"
  by (simp add: Set_add_def)

lemma subscribersOf_subscribe:
  "subscribersOf (subscribe c p s) q =
     (if q = p then Set_add c (subscribersOf s p) else subscribersOf s q)"
  by (simp add: subscribersOf_def)

lemma fold_subscribe_fields [simp]:
  "tree (fold (\<lambda>n. subscribe c (p @ [n])) ns s) = tree s"
  "clients (fold (\<lambda>n. subscribe c (p @ [n])) ns s) = clients s"
  "clientObjs (fold (\<lambda>n. subscribe c (p @ [n])) ns s) = clientObjs s"
  "emitted (fold (\<lambda>n. subscribe c (p @ [n])) ns s) = emitted s"
  by (induction ns arbitrary: s; simp)+

lemma fold_subscribe_subscribers:
  "subscribers (fold (\<lambda>n. subscribe c (p @ [n])) ns s) q =
     (if q \<in> (\<lambda>n. p @ [n]) ` set ns then Some (Set_add c (subscribersOf s q))
      else subscribers s q)"
proof (induction ns arbitrary: s)
  case Nil
  show ?case by simp
next
  case (Cons n ns)
  show ?case
    by (auto simp: Cons.IH subscribersOf_subscribe Set_add_idem)
qed

lemma isStream_matrix: "isMatrix e \<Longrightarrow> \<not> isStream e"
  by (auto simp: isMatrix_def isStream_def split: body.splits)

lemma handleGetDirectory_subscribers:
  assumes "tree s p = Some element"
  shows "subscribers (fst (handleGetDirectory (Some client) p s)) =
     subscribers
       (if (isMatrix element \<or> isParameter element) \<and> \<not> isStream element then subscribe client p s
        else fold (\<lambda>n. subscribe client (p @ [n])) (childrenOf element) s)"
  using assms
  by (auto simp: handleGetDirectory_def Let_def childrenOf_def split: option.splits)

text \<open>
  Claim C8.  On a \<^verbatim>\<open>GetDirectory\<close> command of a client for an element of the tree: if the
  element is a matrix, or a parameter without a stream identifier, the client is added to
  the subscribers of the element's own path, and the registry changes nowhere else;
  otherwise the client is added to the subscribers of the path of each immediate child of
  the element, and the registry changes nowhere else.
\<close>

theorem handleGetDirectory_subscribes:
  assumes "tree s p = Some element"
  shows "(isMatrix element \<or> isParameter element \<and> \<not> isStream element \<longrightarrow>
      subscribers (fst (handleGetDirectory (Some client) p s)) =
        (subscribers s)(p \<mapsto> Set_add client (subscribersOf s p)) \<and>
      client \<in> set (subscribersOf (fst (handleGetDirectory (Some client) p s)) p)) \<and>
    (\<not> (isMatrix element \<or> isParameter element \<and> \<not> isStream element) \<longrightarrow>
      (\<forall>q. subscribers (fst (handleGetDirectory (Some client) p s)) q =
         (if q \<in> (\<lambda>n. p @ [n]) ` set (childrenOf element)
          then Some (Set_add client (subscribersOf s q)) else subscribers s q)) \<and>
      (\<forall>n \<in> set (childrenOf element).
         client \<in> set (subscribersOf (fst (handleGetDirectory (Some client) p s)) (p @ [n]))))"
proof (cases "isMatrix element \<or> isParameter element \<and> \<not> isStream element")
  case True
  then have c: "(isMatrix element \<or> isParameter element) \<and> \<not> isStream element"
    using isStream_matrix by blast
  have s: "subscribers (fst (handleGetDirectory (Some client) p s)) =
      subscribers (subscribe client p s)"
    by (simp only: handleGetDirectory_subscribers[OF assms] if_P[OF c])
  show ?thesis
    using True by (simp add: s subscribersOf_def Set_add_member)
next
  case False
  then have c: "\<not> ((isMatrix element \<or> isParameter element) \<and> \<not> isStream element)"
    by blast
  have s: "subscribers (fst (handleGetDirectory (Some client) p s)) =
      subscribers (fold (\<lambda>n. subscribe client (p @ [n])) (childrenOf element) s)"
    by (simp only: handleGetDirectory_subscribers[OF assms] if_not_P[OF c])
  show ?thesis
    using False
    by (auto simp: s fold_subscribe_subscribers subscribersOf_def Set_add_member)
qed

theorem handleGetDirectory_subscribes_witness:
  "subscribers (fst (handleGetDirectory (Some 0) [3] exampleServer)) =
     [[1, 2] \<mapsto> [0, 1, 2], [3] \<mapsto> [1, 2, 0]] \<and>
   subscribersOf (fst (handleGetDirectory (Some 0) [1, 2] exampleServer)) [1, 2] = [0, 1, 2] \<and>
   subscribersOf (fst (handleGetDirectory (Some 0) [] exampleServer)) [1] = [0] \<and>
   subscribersOf (fst (handleGetDirectory (Some 0) [] exampleServer)) [3] = [1, 2, 0] \<and>
   subscribersOf (fst (handleGetDirectory (Some 0) [] exampleServer)) [1, 2] = [0, 1, 2]"
  using handleGetDirectory_subscribes[of exampleServer "[3]" _ 0]
    handleGetDirectory_subscribes[of exampleServer "[1, 2]" _ 0]
    handleGetDirectory_subscribes[of exampleServer "[]" _ 0]
  by (simp add: exampleServer_def exampleTree_def subscribersOf_def childrenOf_def
      getChildren_def isMatrix_def isParameter_def isStream_def Set_add_def)

subsection \<open>The subscriber sets stay free of duplicates\<close>

text \<open>The registry starts empty, and no operation on it puts a client twice into the
  subscribers of a path.\<close>

lemma Set_add_distinct: "distinct xs \<Longrightarrow> distinct (Set_add x xs)"
  by (simp add: Set_add_def)

lemma subscribe_distinct:
  "distinct (subscribersOf s q) \<Longrightarrow> distinct (subscribersOf (subscribe c p s) q)"
  by (auto simp: subscribersOf_subscribe Set_add_distinct)

lemma unsubscribe_distinct:
  "distinct (subscribersOf s q) \<Longrightarrow> distinct (subscribersOf (unsubscribe c p s) q)"
  by (auto simp: subscribersOf_unsubscribe distinct_removeAll)

lemma updateSubscribers_distinct:
  "distinct (subscribersOf s q) \<Longrightarrow>
   distinct (subscribersOf (updateSubscribers p res origin s) q)"
  by (auto simp: subscribersOf_def updateSubscribers_subscribers split: option.splits)

section \<open>Setting a parameter\<close>

lemma setValue_fields [simp]:
  "clients (setValue p v origin s) = clients s"
  "subscribers (setValue p v origin s) = subscribers s"
  "clientObjs (setValue p v origin s) = clientObjs s"
  by (simp_all add: setValue_def emit_def Let_def split: option.splits body.splits)

lemma subscribersOf_cong [simp]:
  "subscribersOf (setValue p v origin s) q = subscribersOf s q"
  "subscribersOf (onClient c f s) q = subscribersOf s q"
  "subscribersOf (emit ev s) q = subscribersOf s q"
  by (simp_all add: subscribersOf_def)

lemma setValue_not_writable_eq:
  assumes "tree s p = Some e" "body e = ParameterBody (Some c)"
    "paccess c = Some a" "access_value a \<le> 1"
  shows "setValue p v origin s = s"
  using assms by (simp add: setValue_def)

lemma setValue_writable_eq:
  assumes "tree s p = Some e" "body e = ParameterBody (Some c)"
    "paccess c = Some a" "access_value a > 1"
  shows "setValue p v origin s =
    emit (ValueChange p (pvalue c))
      (s\<lparr>tree := (tree s)(p \<mapsto> e\<lparr>body := ParameterBody (Some (c\<lparr>pvalue := Some v\<rparr>))\<rparr>)\<rparr>)"
  using assms by (simp add: setValue_def)

lemma deliver_after_send:
  assumes "distinct (subscribersOf s p)"
  shows "clientObjs (updateSubscribers p res (Some client) (onClient client (sendBERNode res) s)) =
    deliver (Some client) p res s"
proof
  fix c
  have d: "distinct (subscribersOf (onClient client (sendBERNode res) s) p)"
    using assms by simp
  show "clientObjs (updateSubscribers p res (Some client) (onClient client (sendBERNode res) s)) c =
    deliver (Some client) p res s c"
    by (simp add: updateSubscribers_clientObjs[OF d] deliver_def)
qed

text \<open>
  Claim C5.  A write on a parameter whose access level is at most \<^emph>\<open>read\<close> has no
  effect and raises nothing: \<^verbatim>\<open>setValue\<close> leaves the server as it is (the value is
  unchanged and no event is emitted), and the request that carries the write, qualified
  or as a tree branch, returns normally with the tree and the emitted events unchanged:
  no \<^verbatim>\<open>value-change\<close> event and no error.
\<close>

theorem setValue_read_only:
  assumes "tree s p = Some e" and "body e = ParameterBody (Some c)"
    and "paccess c = Some a" and "access_value a \<le> 1"
  shows "setValue p v origin s = s \<and>
    (rcontents parameter = Some (Some v) \<longrightarrow>
       snd (handleQualifiedParameter client p parameter s) = Inr () \<and>
       tree (fst (handleQualifiedParameter client p parameter s)) = tree s \<and>
       emitted (fst (handleQualifiedParameter client p parameter s)) = emitted s) \<and>
    (traverse node [] = Some (p, cmd) \<and> rkind cmd = Parameter \<and>
     rcontents cmd = Some (Some v) \<longrightarrow>
       snd (handleNode client node s) = Inr (ElementPath p) \<and>
       tree (fst (handleNode client node s)) = tree s \<and>
       emitted (fst (handleNode client node s)) = emitted s)"
  using assms setValue_not_writable_eq[OF assms]
  by (auto simp: handleQualifiedParameter_def handleNode_def getElementByPath_def Let_def)

theorem setValue_read_only_witness:
  "setValue [1, 4] (VInt 42) (Some 0) exampleServer = exampleServer \<and>
   snd (handleQualifiedParameter 0 [1, 4] (qualifiedSet [1, 4] (VInt 42)) exampleServer) = Inr () \<and>
   tree (fst (handleQualifiedParameter 0 [1, 4] (qualifiedSet [1, 4] (VInt 42)) exampleServer)) = exampleTree \<and>
   emitted (fst (handleQualifiedParameter 0 [1, 4] (qualifiedSet [1, 4] (VInt 42)) exampleServer)) = [] \<and>
   snd (handleNode 0 (branchSet4 (VInt 42)) exampleServer) = Inr (ElementPath [1, 4]) \<and>
   tree (fst (handleNode 0 (branchSet4 (VInt 42)) exampleServer)) = exampleTree \<and>
   emitted (fst (handleNode 0 (branchSet4 (VInt 42)) exampleServer)) = []"
  using setValue_read_only[where s = exampleServer and p = "[1, 4]"
      and e = "\<lparr>isQualified = False,
         body = ParameterBody (Some \<lparr>pvalue = Some (VInt 7),
           paccess = Some AccessRead, streamIdentifier = None\<rparr>),
         children = None\<rparr>"
      and c = "\<lparr>pvalue = Some (VInt 7), paccess = Some AccessRead, streamIdentifier = None\<rparr>"
      and a = AccessRead and v = "VInt 42" and origin = "Some 0" and client = 0
      and parameter = "qualifiedSet [1, 4] (VInt 42)" and node = "branchSet4 (VInt 42)"
      and cmd = "Request Parameter None (Some 4) None (Some (Some (VInt 42))) None"]
  by (simp add: exampleServer_def exampleTree_def qualifiedSet_def branchSet4_def)

lemma duplicates_cong: "tree s1 = tree s2 \<Longrightarrow> duplicates s1 p = duplicates s2 p"
  by (auto simp: duplicates_def split: option.splits)

lemma deliver_cong:
  "clientObjs s1 = clientObjs s2 \<Longrightarrow> subscribers s1 = subscribers s2 \<Longrightarrow>
   clients s1 = clients s2 \<Longrightarrow> deliver origin p res s1 = deliver origin p res s2"
  by (rule ext) (auto simp: deliver_def subscribersOf_def)

lemma parameter_set_response:
  assumes "tree s p = Some e" and "body e = ParameterBody (Some c)"
    and "paccess c = Some a" and "access_value a > 1"
    and "distinct (subscribersOf s p)"
    and "e' = e\<lparr>body := ParameterBody (Some (c\<lparr>pvalue := Some v\<rparr>))\<rparr>"
    and "s1 = setValue p v (Some client) s"
    and "res = ElementResponse form p (tree s1 p) (duplicates s1 p)"
    and "s' = updateSubscribers p res (Some client) (onClient client (sendBERNode res) s1)"
  shows "res = ElementResponse form p (Some e') (duplicates s' p) \<and>
    tree s' = (tree s)(p \<mapsto> e') \<and>
    emitted s' = emitted s @ [ValueChange p (pvalue c)] \<and>
    clientObjs s' = deliver (Some client) p res s"
proof -
  have s1: "s1 = emit (ValueChange p (pvalue c)) (s\<lparr>tree := (tree s)(p \<mapsto> e')\<rparr>)"
    using assms(1-4) by (simp add: assms(6,7) setValue_writable_eq)
  have t: "tree s' = (tree s)(p \<mapsto> e')" and ev: "emitted s' = emitted s @ [ValueChange p (pvalue c)]"
    by (simp_all add: assms(9) s1)
  have "tree s1 = tree s'" by (simp add: assms(9))
  then have d: "duplicates s1 p = duplicates s' p" by (rule duplicates_cong)
  have r: "res = ElementResponse form p (Some e') (duplicates s' p)"
    using d t by (simp add: assms(8) s1)
  have "distinct (subscribersOf s1 p)"
    using assms(5) by (simp add: assms(7))
  then have "clientObjs s' = deliver (Some client) p res s1"
    unfolding assms(9) by (rule deliver_after_send)
  also have "\<dots> = deliver (Some client) p res s"
    by (rule deliver_cong) (simp_all add: assms(7))
  finally show ?thesis using r t ev by simp
qed

text \<open>
  Claim C4.  A request that sets the value of a parameter whose access level is above
  \<^emph>\<open>read\<close>: the value of the parameter becomes the value requested; one event
  \<^verbatim>\<open>value-change\<close> is emitted, with the element and the value it had before; the
  response is the updated parameter in the form of the request (qualified for a
  qualified parameter, a tree branch otherwise); the client that sent the request is sent
  this response, and every other subscriber of the path of the parameter that is a live
  client gets the same response through \<^verbatim>\<open>queueMessage\<close>.
\<close>

theorem setValue_write:
  assumes "tree s p = Some e" and "body e = ParameterBody (Some c)"
    and "paccess c = Some a" and "access_value a > 1"
    and "distinct (subscribersOf s p)"
    and "e' = e\<lparr>body := ParameterBody (Some (c\<lparr>pvalue := Some v\<rparr>))\<rparr>"
  shows
    "(rcontents parameter = Some (Some v) \<longrightarrow>
       (let s' = fst (handleQualifiedParameter client p parameter s);
            res = ElementResponse QualifiedForm p (Some e') (duplicates s' p)
        in snd (handleQualifiedParameter client p parameter s) = Inr () \<and>
           tree s' = (tree s)(p \<mapsto> e') \<and>
           emitted s' = emitted s @ [ValueChange p (pvalue c)] \<and>
           clientObjs s' = deliver (Some client) p res s)) \<and>
    (traverse node [] = Some (p, cmd) \<and> rkind cmd = Parameter \<and>
     rcontents cmd = Some (Some v) \<longrightarrow>
       (let s' = fst (handleNode client node s);
            res = ElementResponse TreeBranchForm p (Some e') (duplicates s' p)
        in snd (handleNode client node s) = Inr (ElementPath p) \<and>
           tree s' = (tree s)(p \<mapsto> e') \<and>
           emitted s' = emitted s @ [ValueChange p (pvalue c)] \<and>
           clientObjs s' = deliver (Some client) p res s))"
proof -
  have q: "rcontents parameter = Some (Some v) \<Longrightarrow>
    handleQualifiedParameter client p parameter s =
      (updateSubscribers p (getQualifiedResponse (setValue p v (Some client) s) p) (Some client)
         (onClient client (sendBERNode (getQualifiedResponse (setValue p v (Some client) s) p))
            (setValue p v (Some client) s)), Inr ())"
    by (simp add: handleQualifiedParameter_def Let_def)
  have n: "traverse node [] = Some (p, cmd) \<and> rkind cmd = Parameter \<and>
     rcontents cmd = Some (Some v) \<Longrightarrow>
    handleNode client node s =
      (updateSubscribers p (getResponse (setValue p v (Some client) s) p) (Some client)
         (onClient client (sendBERNode (getResponse (setValue p v (Some client) s) p))
            (setValue p v (Some client) s)), Inr (ElementPath p))"
    using assms(1) by (simp add: handleNode_def getElementByPath_def Let_def)
  note a = parameter_set_response[OF assms(1-6) refl, where client = client]
  show ?thesis
    using a[of _ QualifiedForm, OF refl refl] a[of _ TreeBranchForm, OF refl refl]
    by (auto simp: q n Let_def getQualifiedResponse_def getResponse_def)
qed

lemma newClient_fields:
  "socket newClient" "written newClient = []" "request newClient = None"
  "pendingRequests newClient = []" "activeRequest newClient = None"
  by (simp_all add: newClient_def)

theorem setValue_write_witness:
  "(let s' = fst (handleQualifiedParameter 0 [1, 2] (qualifiedSet [1, 2] (VInt 42)) exampleServer)
    in tree s' [1, 2] =
         Some \<lparr>isQualified = False,
           body = ParameterBody (Some \<lparr>pvalue = Some (VInt 42),
             paccess = Some AccessReadWrite, streamIdentifier = None\<rparr>),
           children = None\<rparr> \<and>
       emitted s' = [ValueChange [1, 2] (Some (VInt 10))] \<and>
       written (clientObjs s' 0) = [exampleAnswer QualifiedForm] \<and>
       written (clientObjs s' 1) = [exampleAnswer QualifiedForm] \<and>
       written (clientObjs s' 2) = []) \<and>
   (let s' = fst (handleNode 0 (branchSet (VInt 42)) exampleServer)
    in emitted s' = [ValueChange [1, 2] (Some (VInt 10))] \<and>
       written (clientObjs s' 0) = [exampleAnswer TreeBranchForm] \<and>
       written (clientObjs s' 1) = [exampleAnswer TreeBranchForm] \<and>
       written (clientObjs s' 2) = [])"
  using setValue_write[where s = exampleServer and p = "[1, 2]"
      and e = "\<lparr>isQualified = False,
         body = ParameterBody (Some \<lparr>pvalue = Some (VInt 10),
           paccess = Some AccessReadWrite, streamIdentifier = None\<rparr>),
         children = None\<rparr>"
      and c = "\<lparr>pvalue = Some (VInt 10), paccess = Some AccessReadWrite,
         streamIdentifier = None\<rparr>"
      and a = AccessReadWrite and v = "VInt 42" and client = 0
      and e' = "\<lparr>isQualified = False,
         body = ParameterBody (Some \<lparr>pvalue = Some (VInt 42),
           paccess = Some AccessReadWrite, streamIdentifier = None\<rparr>),
         children = None\<rparr>"
      and parameter = "qualifiedSet [1, 2] (VInt 42)" and node = "branchSet (VInt 42)"
      and cmd = "Request Parameter None (Some 2) None (Some (Some (VInt 42))) None"]
  by (simp add: exampleServer_def exampleTree_def qualifiedSet_def branchSet_def
      subscribersOf_def exampleAnswer_def Let_def deliver_def duplicates_def getChildren_def
      queueMessage_newClient sendBERNode_def sendBER_def isConnected_def newClient_fields)

section \<open>Matrix connections\<close>


lemma applyConnections_dom: "dom (applyConnections cons conns) = dom conns"
  by (induction cons arbitrary: conns) (auto split: option.splits)













section \<open>The root of a request\<close>

lemma guardErrors_emitted: "emitted s' = emitted s \<Longrightarrow> guardErrors s' = guardErrors s"
  by (simp add: guardErrors_def)

lemma guardErrors_emit:
  "guardErrors (emit ev s) = guardErrors s + (if ev = ErrorEvent InvalidRequest then 1 else 0)"
  by (simp add: guardErrors_def)

lemma putSources_emitted [simp]: "emitted (putSources p t srcs s) = emitted s"
  by (simp add: putSources_def split: option.splits body.splits)

lemma handleError_emitted [simp]: "emitted (handleError client node s) = emitted s"
  by (simp add: handleError_def Let_def split: option.splits)

lemma handleGetDirectory_emitted [simp]:
  "emitted (fst (handleGetDirectory client p s)) = emitted s"
  by (auto simp: handleGetDirectory_def Let_def split: option.splits)

lemma guardErrors_simps [simp]:
  "guardErrors (onClient c f s) = guardErrors s"
  "guardErrors (subscribe c p s) = guardErrors s"
  "guardErrors (unsubscribe c p s) = guardErrors s"
  "guardErrors (updateSubscribers p res origin s) = guardErrors s"
  "guardErrors (putSources p t srcs s) = guardErrors s"
  "guardErrors (handleError client node s) = guardErrors s"
  "guardErrors (fst (handleGetDirectory client p s)) = guardErrors s"
  by (simp_all add: guardErrors_def)

lemma setValue_guardErrors [simp]: "guardErrors (setValue p v origin s) = guardErrors s"
  by (simp add: setValue_def Let_def guardErrors_emit split: option.splits body.splits)
    (simp add: guardErrors_def)

lemma connectionsLoop_guardErrors [simp]:
  "guardErrors (fst (connectionsLoop client p response cons res s)) = guardErrors s"
proof (induction cons arbitrary: res s client response)
  case Nil
  show ?case by simp
next
  case (Cons con cons)
  show ?case
    by (simp add: Cons.IH guardErrors_emit remoteAddress_def Let_def
        split: option.splits prod.splits)
qed

lemma handleMatrixConnections_guardErrors [simp]:
  "guardErrors (fst (handleMatrixConnections client p connections response s)) = guardErrors s"
proof -
  obtain s1 r where l: "connectionsLoop client p response
      (case connections of None \<Rightarrow> [] | Some cs \<Rightarrow> cs) Map.empty s = (s1, r)"
    by fastforce
  have g: "guardErrors s1 = guardErrors s"
    using connectionsLoop_guardErrors[of client p response
        "case connections of None \<Rightarrow> [] | Some cs \<Rightarrow> cs" Map.empty s]
    by (simp add: l)
  show ?thesis
    by (cases r) (simp_all add: handleMatrixConnections_def Let_def l g split: option.splits)
qed

lemma handleCommand_guardErrors [simp]:
  "guardErrors (fst (handleCommand client p cmd s)) = guardErrors s"
  by (simp add: handleCommand_def handleSubscribe_def handleUnSubscribe_def guardErrors_emit)

lemma handleQualifiedParameter_guardErrors [simp]:
  "guardErrors (fst (handleQualifiedParameter client p parameter s)) = guardErrors s"
  by (simp add: handleQualifiedParameter_def Let_def split: option.splits)

lemma fst_case_result:
  "fst (case r of (s1, Inl e) \<Rightarrow> (s1, Inl e) | (s1, Inr u) \<Rightarrow> (s1, Inr (f u))) = fst r"
  by (simp split: prod.splits sum.splits)

lemma handleQualifiedNode_guardErrors [simp]:
  "guardErrors (fst (handleQualifiedNode client node s)) = guardErrors s"
  by (simp add: handleQualifiedNode_def handleQualifiedMatrix_def Let_def guardErrors_emit
      fst_case_result split: option.splits list.splits)

lemma handleNode_guardErrors [simp]:
  "guardErrors (fst (handleNode client node s)) = guardErrors s"
  by (simp add: handleNode_def Let_def guardErrors_emit fst_case_result
      split: option.splits list.splits prod.splits rkind.splits)

text \<open>
  Claim C1, as the code has it.  When the root is missing, has no list of elements or has
  an empty one, \<^verbatim>\<open>handleRoot\<close> emits the error \<^verbatim>\<open>Error("invalid request")\<close>, returns
  undefined and changes neither the tree nor the registry.  When the root has one element
  or more, \<^verbatim>\<open>handleRoot\<close> does what it does for the root with the first element alone (the
  other elements are ignored), and it does not emit the error of the guard: the number
  of these errors among the events emitted is unchanged.
\<close>

theorem handleRoot_guard:
  "(r = None \<or> (\<exists>rt. r = Some rt \<and> (elements rt = None \<or> elements rt = Some [])) \<longrightarrow>
      emitted (fst (handleRoot client r s)) = emitted s @ [ErrorEvent InvalidRequest] \<and>
      snd (handleRoot client r s) = Inr Undefined \<and>
      tree (fst (handleRoot client r s)) = tree s \<and>
      subscribers (fst (handleRoot client r s)) = subscribers s) \<and>
   (elements rt = Some (node # others) \<longrightarrow>
      handleRoot client (Some rt) s = handleRoot client (Some (rt\<lparr>elements := Some [node]\<rparr>)) s \<and>
      guardErrors (fst (handleRoot client (Some rt) s)) = guardErrors s)"
proof -
  have "guardErrors (fst (handleRoot client (Some rt) s)) = guardErrors s"
    if "elements rt = Some (node # others)"
    using that by (simp add: handleRoot_def Let_def fst_case_result)
  then show ?thesis
    by (auto simp: handleRoot_def)
qed

theorem handleRoot_guard_witness:
  "emitted (fst (handleRoot 0 (Some \<lparr>elements = Some []\<rparr>) exampleServer)) =
     [ErrorEvent InvalidRequest] \<and>
   snd (handleRoot 0 (Some \<lparr>elements = Some []\<rparr>) exampleServer) = Inr Undefined \<and>
   handleRoot 0 (Some twoCommands) exampleServer =
     handleRoot 0
       (Some \<lparr>elements = Some [Request Command None (Some Subscribe) None None None]\<rparr>)
       exampleServer \<and>
   guardErrors (fst (handleRoot 0 (Some twoCommands) exampleServer)) = 0"
  using handleRoot_guard[where r = "Some \<lparr>elements = Some []\<rparr>" and client = 0
      and s = exampleServer and rt = twoCommands
      and node = "Request Command None (Some Subscribe) None None None"
      and others = "[Request Command None (Some Unsubscribe) None None None]"]
  by (auto simp: twoCommands_def exampleServer_def guardErrors_def)

text \<open>
  Claim C1 as it is stated fails.  For a root with two elements no error is emitted: the
  first element, a \<^verbatim>\<open>Subscribe\<close> command on the root, is carried out.  For a root with an
  empty list of elements the error is emitted and nothing is written to the client.
\<close>

theorem handleRoot_two_elements_no_error:
  "emitted (fst (handleRoot 0 (Some twoCommands) exampleServer)) = [] \<and>
   snd (handleRoot 0 (Some twoCommands) exampleServer) = Inr RootPath \<and>
   subscribersOf (fst (handleRoot 0 (Some twoCommands) exampleServer)) [] = [0] \<and>
   emitted (fst (handleRoot 0 (Some \<lparr>elements = Some []\<rparr>) exampleServer)) =
     [ErrorEvent InvalidRequest] \<and>
   written (clientObjs (fst (handleRoot 0 (Some \<lparr>elements = Some []\<rparr>) exampleServer)) 0) = []"
  by (simp add: twoCommands_def exampleServer_def handleRoot_def handleCommand_def
      handleSubscribe_def Subscribe_def GetDirectory_def Unsubscribe_def subscribersOf_def
      Let_def newClient_fields emit_def Set_add_def)

section \<open>Validation of matrix operations\<close>

text \<open>The server-side calls validate before they touch the matrix: a call that fails
  the validation throws and leaves the server as it is.\<close>

lemma doMatrixOperation_rejected:
  "validateMatrixOperation (getElementByPath s p) t srcs = Some e \<Longrightarrow>
   doMatrixOperation p t srcs op s = (s, Inl e)"
  by (simp add: doMatrixOperation_def)

lemma validateMatrixOperation_passes:
  "validateMatrixOperation matrix t srcs = None \<longleftrightarrow>
   (\<exists>m mc n xs. matrix = Some m \<and> matrixContents m = Some mc \<and> targetCount mc = Some n \<and>
      0 \<le> t \<and> t < n \<and> srcs = SourcesSeq xs)"
  by (auto simp: validateMatrixOperation_def split: option.splits sources_arg.splits)

text \<open>
  Claim C2 on the code.  The connections of a request of a client are not validated:
  \<^verbatim>\<open>handleMatrixConnections\<close> applies them one after the other.  In the request below
  the second connection names target 9 of a matrix with four targets: reading the
  connection of that target throws a \<^verbatim>\<open>TypeError\<close>, which is emitted as an error, and no
  response is written; but the first connection has been applied, target 0 has got
  source 1 and its event has been emitted.  The same target in the server-side call
  \<^verbatim>\<open>matrixSet\<close> is refused by the validation and the server is unchanged.
\<close>

theorem client_connections_not_validated:
  "matrixSources exampleServer [3] 0 = Some {} \<and>
   matrixSources (onEmberTree 0 (Some badConnections) exampleServer) [3] 0 = Some {1} \<and>
   emitted (onEmberTree 0 (Some badConnections) exampleServer) =
     [MatrixEvent MatrixChange 0 [1] 0, ErrorEvent TypeError] \<and>
   written (clientObjs (onEmberTree 0 (Some badConnections) exampleServer) 0) = [] \<and>
   matrixSet [3] 9 (SourcesSeq [1]) exampleServer =
     (exampleServer, Inl (TargetOutOfRange 9 4))"
  by (simp add: badConnections_def exampleServer_def exampleTree_def onEmberTree_def
      handleRoot_def handleNode_def getElementByPath_def handleMatrixConnections_def
      matrixSources_def putSources_def remoteAddress_def setSources_def
      matrixSet_def doMatrixOperation_def validateMatrixOperation_def matrixContents_def
      Let_def newClient_fields emit_def onClient_def)

end
